theory Spec2Isabelle
  imports Main
begin

section \<open>The DHT node of package dht\<close>

text \<open>
  The development follows the source file of package \<open>dht\<close> that holds the engine:
  the protocol constants, \<open>Config\<close>, \<open>New\<close>, \<open>handle\<close>, \<open>handleRequest\<close>,
  \<open>handleResponse\<close>, \<open>handleError\<close>, \<open>send\<close> and \<open>getArgs\<close>. \<open>argsToString\<close> only
  formats a debug message and cannot panic: it slices the hexadecimal text of an argument
  of 48 bytes only.
  A Go \<open>string\<close> is a sequence of bytes and is modelled as \<open>string\<close>. A panic is a
  value of the result type. Calls of the logger change nothing that is modelled; the
  arguments the source computes for them are modelled where computing them can panic.
\<close>

subsection \<open>Constants\<close>

definition alpha :: nat where
  "alpha = 3"

definition nodeIDLength :: nat where
  "nodeIDLength = 48"

definition bucketSize :: nat where
  "bucketSize = 20"

text \<open>\<open>tExpire\<close> is \<open>86400 * time.Second\<close>; times are counted in seconds.\<close>

definition tExpire :: nat where
  "tExpire = 86400"

definition numBuckets :: nat where
  "numBuckets = nodeIDLength * 8"

definition compactNodeInfoLength :: nat where
  "compactNodeInfoLength = nodeIDLength + 6"

subsection \<open>Results of code that can panic\<close>

datatype 'a outcome = Panic | Returns 'a

fun andThen :: "'a outcome \<Rightarrow> ('a \<Rightarrow> 'b outcome) \<Rightarrow> 'b outcome" where
  "andThen Panic f = Panic"
| "andThen (Returns x) f = f x"

subsection \<open>Identifiers and contacts\<close>

text \<open>
  Modelled from the spec: the type \<open>bitmap\<close> and its functions \<open>RawString\<close>,
  \<open>newBitmapFromString\<close>, \<open>Hex\<close> are not in the source file. By the spec (section 3) an
  identifier is a fixed-length string of \<open>nodeIDLength\<close> bytes; the model holds its bytes,
  and the conversions from and to the raw string keep them.
\<close>

type_synonym bitmap = string

definition RawString :: "bitmap \<Rightarrow> string" where
  "RawString b = b"

definition newBitmapFromString :: "string \<Rightarrow> bitmap" where
  "newBitmapFromString s = s"

text \<open>The bits of a byte and of an identifier, most significant first.\<close>

fun bitsOfByte :: "char \<Rightarrow> bool list" where
  "bitsOfByte (Char b0 b1 b2 b3 b4 b5 b6 b7) = [b7, b6, b5, b4, b3, b2, b1, b0]"

definition bitsOf :: "bitmap \<Rightarrow> bool list" where
  "bitsOf b = concat (map bitsOfByte b)"

text \<open>
  Modelled from the spec: the distance functions of section 4.1 are not in the source
  file. \<open>distance a b\<close> is the bitwise XOR of the two identifiers read as an unsigned
  integer, \<open>prefixLength a b\<close> the number of leading equal bits.
\<close>

definition xorBits :: "bitmap \<Rightarrow> bitmap \<Rightarrow> bool list" where
  "xorBits a b = map (\<lambda>(x, y). x \<noteq> y) (zip (bitsOf a) (bitsOf b))"

definition natOfBits :: "bool list \<Rightarrow> nat" where
  "natOfBits bs = foldl (\<lambda>n b. 2 * n + (if b then 1 else 0)) 0 bs"

definition distance :: "bitmap \<Rightarrow> bitmap \<Rightarrow> nat" where
  "distance a b = natOfBits (xorBits a b)"

definition prefixLength :: "bitmap \<Rightarrow> bitmap \<Rightarrow> nat" where
  "prefixLength a b = length (takeWhile (\<lambda>d. \<not> d) (xorBits a b))"

text \<open>The struct \<open>Node\<close>, as the source builds it: \<open>Node{id: ..., ip: ..., port: ...}\<close>.\<close>

record Node =
  id' :: bitmap
  ip :: string
  port :: int

text \<open>
  \<open>net.UDPAddr\<close>, with the two fields the source reads. \<open>IP\<close> holds the text that
  \<open>addr.IP.String()\<close> returns.
\<close>

record UDPAddr =
  IP :: string
  Port :: int

subsection \<open>Routing table\<close>

text \<open>
  Modelled from the spec: \<open>RoutingTable\<close>, \<open>newRoutingTable\<close>, \<open>Update\<close> and
  \<open>FindClosest\<close> are not in the source file. By the spec (sections 3 and 4.2) the table is
  an ordered collection of buckets indexed by the length of the prefix shared with the
  local id; only the bucket that covers the local id is ever split. The buckets are
  \<open>far rt @ [near rt]\<close>: \<open>far rt ! i\<close> holds the contacts that share exactly \<open>i\<close>
  leading bits with the local id, \<open>near rt\<close> covers the local id and holds the contacts
  that share at least \<open>length (far rt)\<close> bits. A bucket is ordered with the freshest
  contact at the front.
\<close>

type_synonym bucket = "Node list"

record RoutingTable =
  rt_node :: Node
  far :: "bucket list"
  near :: bucket

definition newRoutingTable :: "Node \<Rightarrow> RoutingTable" where
  "newRoutingTable n = \<lparr>rt_node = n, far = [], near = []\<rparr>"

definition buckets :: "RoutingTable \<Rightarrow> bucket list" where
  "buckets rt = far rt @ [near rt]"

definition contacts :: "RoutingTable \<Rightarrow> Node list" where
  "contacts rt = concat (buckets rt)"

definition holds :: "bucket \<Rightarrow> Node \<Rightarrow> bool" where
  "holds b c = (id' c \<in> set (map id' b))"

text \<open>
  A contact that is present moves to the front; a contact with the same id and another
  address replaces the old one.
\<close>

definition moveToFront :: "Node \<Rightarrow> bucket \<Rightarrow> bucket" where
  "moveToFront c b = c # filter (\<lambda>n. id' n \<noteq> id' c) b"

text \<open>
  Modelled from the spec: the insertion of \<open>Update\<close> (section 4.2). Locate the bucket by
  the prefix length with the local id; a present contact moves to the front; a bucket
  with room takes the contact at the front; a full bucket that covers the local id is
  split by the next prefix bit and the insertion retried; a full bucket that does not
  cover the local id drops the new contact.
\<close>

function insertContact :: "bitmap \<Rightarrow> Node \<Rightarrow> bucket list \<Rightarrow> bucket \<Rightarrow> bucket list \<times> bucket" where
  "insertContact local c fs n =
     (let p = prefixLength local (id' c) in
      if p < length fs then
        (if holds (fs ! p) c then (fs[p := moveToFront c (fs ! p)], n)
         else if length (fs ! p) < bucketSize then (fs[p := c # (fs ! p)], n)
         else (fs, n))
      else if holds n c then (fs, moveToFront c n)
      else if length n < bucketSize then (fs, c # n)
      else if Suc (length fs) < numBuckets then
        insertContact local c
          (fs @ [filter (\<lambda>x. prefixLength local (id' x) = length fs) n])
          (filter (\<lambda>x. length fs < prefixLength local (id' x)) n)
      else (fs, n))"
  by pat_completeness auto
termination
  by (relation "measure (\<lambda>(local, c, fs, n). numBuckets - length fs)") auto

declare insertContact.simps [simp del]

text \<open>
  Modelled from the spec: \<open>Update\<close> (section 4.2) is a no-op for a contact whose id is
  the local id, and inserts or refreshes any other contact.
\<close>

definition Update :: "RoutingTable \<Rightarrow> Node \<Rightarrow> RoutingTable" where
  "Update rt c =
     (if id' c = id' (rt_node rt) then rt
      else (case insertContact (id' (rt_node rt)) c (far rt) (near rt) of
              (fs, n) \<Rightarrow> rt\<lparr>far := fs, near := n\<rparr>))"

text \<open>
  Modelled from the spec: \<open>FindClosest\<close> (section 4.2) returns up to \<open>count\<close> contacts in
  ascending order of their distance to the target. The sort is stable, so contacts at the
  same distance keep the order of the table.
\<close>

definition FindClosest :: "RoutingTable \<Rightarrow> bitmap \<Rightarrow> nat \<Rightarrow> Node list" where
  "FindClosest rt target count =
     take count (sort_key (\<lambda>n. distance target (id' n)) (contacts rt))"

subsection \<open>Record store\<close>

text \<open>
  Modelled from the spec: \<open>peerStore\<close>, \<open>newPeerStore\<close>, \<open>Insert\<close> and \<open>Get\<close> are not in
  the source file. By the spec (sections 3 and 4.3) a key maps to records, one for each
  publisher, each with the time it was stored at and expiring \<open>tExpire\<close> later. \<open>Insert\<close>
  resets the expiry of the publisher's record when there is one and adds a record as the
  most recent one otherwise; \<open>Get\<close> returns the publishers of a key, the most recently
  inserted first, and the empty list for an unknown key. The store reads the clock;
  the model takes the time as the argument \<open>now\<close>.
\<close>

record peerRecord =
  publisher :: string
  storedAt :: nat

definition expiresAt :: "peerRecord \<Rightarrow> nat" where
  "expiresAt r = storedAt r + tExpire"

type_synonym peerStore = "string \<rightharpoonup> peerRecord list"

definition newPeerStore :: peerStore where
  "newPeerStore = Map.empty"

definition recordsOf :: "peerStore \<Rightarrow> string \<Rightarrow> peerRecord list" where
  "recordsOf s k = (case s k of None \<Rightarrow> [] | Some rs \<Rightarrow> rs)"

definition Insert :: "nat \<Rightarrow> string \<Rightarrow> string \<Rightarrow> peerStore \<Rightarrow> peerStore" where
  "Insert now k p s =
     (if p \<in> set (map publisher (recordsOf s k))
      then s(k \<mapsto> map (\<lambda>r. if publisher r = p then r\<lparr>storedAt := now\<rparr> else r) (recordsOf s k))
      else s(k \<mapsto> \<lparr>publisher = p, storedAt = now\<rparr> # recordsOf s k))"

definition Get :: "peerStore \<Rightarrow> string \<Rightarrow> string list" where
  "Get s k = map publisher (recordsOf s k)"

subsection \<open>Messages\<close>

text \<open>
  The struct \<open>Config\<close> and its default, \<open>NewStandardConfig\<close>.
\<close>

record Config =
  Address :: string
  SeedNodes :: "string list"
  NodeID :: string

definition NewStandardConfig :: Config where
  "NewStandardConfig =
     \<lparr>Address = '':4444'',
      SeedNodes = [''lbrynet1.lbry.io:4444'', ''lbrynet2.lbry.io:4444'', ''lbrynet3.lbry.io:4444''],
      NodeID = ''''\<rparr>"

text \<open>
  Modelled from the spec: the message types \<open>Request\<close>, \<open>Response\<close> and \<open>Error\<close> are
  not in the source file. Their fields are the ones the source reads and writes; by the
  spec (section 6) a request has a transaction id, the sender's node id, a method and a
  sequence of string arguments, and a \<open>store\<close> request carries a payload with the content
  key and the publisher's id. A field the source leaves out of a struct literal has Go's
  zero value: the empty string, the empty list.
\<close>

record storeArgs =
  BlobHash :: string
  NodeID :: string

record Request =
  ID :: string
  NodeID :: string
  Method :: string
  Args :: "string list"
  StoreArgs :: storeArgs

record Response =
  ID :: string
  NodeID :: string
  Data :: string
  FindNodeData :: "Node list"

record Error =
  ID :: string
  NodeID :: string
  ExceptionType :: string
  Response :: "string list"

text \<open>The interface \<open>Message\<close>, with the three types \<open>send\<close> tells apart.\<close>

datatype Message = MsgRequest Request | MsgResponse Response | MsgError Error

text \<open>
  Modelled from the spec: the method names are not in the source file; the spec
  (section 6) names the four methods.
\<close>

definition pingMethod :: string where
  "pingMethod = ''ping''"

definition storeMethod :: string where
  "storeMethod = ''store''"

definition findNodeMethod :: string where
  "findNodeMethod = ''findNode''"

definition findValueMethod :: string where
  "findValueMethod = ''findValue''"

text \<open>
  The other constants of the protocol that the source file uses and does not declare:
  the keys of the five header fields of a decoded message, the three values of the
  message type and the two success payloads. The spec gives no value for them; they are
  parameters of the model.
\<close>

record constants =
  headerTypeField :: string
  headerMessageIDField :: string
  headerNodeIDField :: string
  headerPayloadField :: string
  headerArgsField :: string
  requestType :: int
  responseType :: int
  errorType :: int
  pingSuccessResponse :: string
  storeSuccessResponse :: string

subsection \<open>Libraries\<close>

text \<open>
  A value of type \<open>interface{}\<close> as the bencode decoder makes it: an \<open>int64\<close>, a
  \<open>string\<close>, a slice or a map.
\<close>

datatype bvalue = BInt int | BStr string | BList "bvalue list" | BDict "(string \<times> bvalue) list"

text \<open>
  The functions of other packages that the source file calls are parameters of the
  model; \<open>None\<close> is a returned error. \<open>DecodeBytes_map\<close> is \<open>bencode.DecodeBytes\<close> into a
  \<open>map[string]interface{}\<close>, \<open>DecodeBytes_Request\<close> and \<open>DecodeBytes_Response\<close> are
  \<open>bencode.DecodeBytes\<close> into a \<open>Request\<close> and a \<open>Response\<close>. \<open>newBitmapFromHex\<close> is a
  function of this package that is not in the source file; it may panic.
\<close>

record library =
  DecodeBytes_map :: "string \<Rightarrow> (string \<rightharpoonup> bvalue) option"
  DecodeBytes_Request :: "string \<Rightarrow> Request option"
  DecodeBytes_Response :: "string \<Rightarrow> Response option"
  cast_ToString :: "bvalue \<Rightarrow> string"
  cast_ToIntE :: "string \<Rightarrow> int option"
  net_SplitHostPort :: "string \<Rightarrow> (string \<times> string) option"
  newBitmapFromHex :: "string \<Rightarrow> bitmap outcome"

text \<open>\<open>hex.EncodeToString\<close>: two lower-case hexadecimal digits for each byte.\<close>

definition hexDigit :: "nat \<Rightarrow> char" where
  "hexDigit n = ''0123456789abcdef'' ! n"

definition EncodeToString :: "string \<Rightarrow> string" where
  "EncodeToString s =
     concat (map (\<lambda>c. [hexDigit (of_char c div 16), hexDigit (of_char c mod 16)]) s)"

text \<open>The slice expression \<open>s[:8]\<close> panics when \<open>s\<close> has fewer than 8 bytes.\<close>

definition sliceTo8 :: "string \<Rightarrow> string outcome" where
  "sliceTo8 s = (if length s < 8 then Panic else Returns (take 8 s))"

text \<open>
  \<open>hex.EncodeToString([]byte(s))[:8]\<close>, an argument of the debug messages of \<open>handle\<close>
  and \<open>send\<close>. The same expression on the local id, \<open>dht.node.id.Hex()[:8]\<close>, is left
  out: a \<open>bitmap\<close> has \<open>nodeIDLength\<close> bytes, so its \<open>Hex\<close> has 96 characters.
\<close>

definition hexPrefix :: "string \<Rightarrow> string outcome" where
  "hexPrefix s = sliceTo8 (EncodeToString s)"

subsection \<open>The node\<close>

text \<open>
  The struct \<open>DHT\<close>. \<open>conn\<close> is modelled by what was written to it: the messages that
  \<open>send\<close> passed to the encoder and the connection, with their destinations, in order.
  The channel \<open>packets\<close> is the input of \<open>handle\<close>.
\<close>

record DHT =
  conf :: Config
  conn :: "(UDPAddr \<times> Message) list"
  node :: Node
  routingTable :: RoutingTable
  store :: peerStore

record packet =
  data :: string
  raddr :: UDPAddr

text \<open>
  \<open>New\<close>. \<open>rnd\<close> is the identifier that \<open>newRandomBitmap\<close> returns. \<open>None\<close> is the
  \<open>nil\<close> config.
\<close>

definition New :: "library \<Rightarrow> bitmap \<Rightarrow> Config option \<Rightarrow> DHT outcome" where
  "New L rnd config0 =
     (let config = (case config0 of None \<Rightarrow> NewStandardConfig | Some c \<Rightarrow> c) in
      andThen
        (if Config.NodeID config = '''' then Returns rnd
         else newBitmapFromHex L (Config.NodeID config))
        (\<lambda>i. case net_SplitHostPort L (Address config) of
                None \<Rightarrow> Panic
              | Some (h, p) \<Rightarrow>
                  (case cast_ToIntE L p of
                     None \<Rightarrow> Panic
                   | Some portInt \<Rightarrow>
                       Returns \<lparr>conf = config, conn = [],
                                node = \<lparr>id' = i, ip = h, port = portInt\<rparr>,
                                routingTable = newRoutingTable \<lparr>id' = i, ip = h, port = portInt\<rparr>,
                                store = newPeerStore\<rparr>)))"

text \<open>
  \<open>send\<close>. The debug message is computed first and panics on a transaction id of fewer
  than 4 bytes; then the message goes to the encoder and the connection. The callers in
  the source file drop the error that \<open>send\<close> returns.
\<close>

definition send :: "DHT \<Rightarrow> UDPAddr \<Rightarrow> Message \<Rightarrow> DHT outcome" where
  "send dht addr m =
     andThen
       (case m of
          MsgRequest req \<Rightarrow> hexPrefix (Request.ID req)
        | MsgResponse res \<Rightarrow> hexPrefix (Response.ID res)
        | MsgError e \<Rightarrow> Returns '''')
       (\<lambda>_. Returns (dht\<lparr>conn := conn dht @ [(addr, m)]\<rparr>))"

text \<open>
  The sender of a message as a contact:
  \<open>&Node{id: newBitmapFromString(nodeID), ip: addr.IP.String(), port: addr.Port}\<close>.
\<close>

definition senderNode :: "string \<Rightarrow> UDPAddr \<Rightarrow> Node" where
  "senderNode nodeID addr = \<lparr>id' = newBitmapFromString nodeID, ip = IP addr, port = Port addr\<rparr>"

text \<open>
  The response of the branches \<open>findNode\<close> and \<open>findValue\<close> of \<open>handleRequest\<close>, which
  build it with the same statements: the contacts of \<open>FindClosest\<close> in \<open>FindNodeData\<close>.
\<close>

definition closestResponse :: "DHT \<Rightarrow> Request \<Rightarrow> Response" where
  "closestResponse dht request =
     (let nodeID = newBitmapFromString (Args request ! 0);
          closestNodes = FindClosest (routingTable dht) nodeID bucketSize
      in \<lparr>Response.ID = Request.ID request, Response.NodeID = RawString (id' (node dht)),
          Data = '''', FindNodeData = closestNodes\<rparr>)"

text \<open>
  The \<open>switch\<close> of \<open>handleRequest\<close> on the method. \<open>Returns None\<close> is a \<open>return\<close> inside
  the switch, \<open>Returns (Some d)\<close> is leaving the switch with the node \<open>d\<close>. The branch
  \<open>findValue\<close> reads the store and tests the result; both branches of the test are
  empty in the source, and the statements after it are those of \<open>findNode\<close>.
\<close>

definition methodSwitch :: "constants \<Rightarrow> nat \<Rightarrow> DHT \<Rightarrow> UDPAddr \<Rightarrow> Request \<Rightarrow> DHT option outcome" where
  "methodSwitch K now dht addr request =
     (if Method request = pingMethod then
        andThen
          (send dht addr (MsgResponse
             \<lparr>Response.ID = Request.ID request, Response.NodeID = RawString (id' (node dht)),
              Data = pingSuccessResponse K, FindNodeData = []\<rparr>))
          (\<lambda>d. Returns (Some d))
      else if Method request = storeMethod then
        (if BlobHash (StoreArgs request) = '''' then Returns None
         else
           andThen
             (send
                (dht\<lparr>store := Insert now (BlobHash (StoreArgs request))
                                 (storeArgs.NodeID (StoreArgs request)) (store dht)\<rparr>)
                addr
                (MsgResponse
                   \<lparr>Response.ID = Request.ID request, Response.NodeID = RawString (id' (node dht)),
                    Data = storeSuccessResponse K, FindNodeData = []\<rparr>))
             (\<lambda>d. Returns (Some d)))
      else if Method request = findNodeMethod then
        (if length (Args request) < 1 then Returns None
         else if length (Args request ! 0) \<noteq> nodeIDLength then Returns None
         else
           andThen (send dht addr (MsgResponse (closestResponse dht request)))
             (\<lambda>d. Returns (Some d)))
      else if Method request = findValueMethod then
        (if length (Args request) < 1 then Returns None
         else if length (Args request ! 0) \<noteq> nodeIDLength then Returns None
         else
           (let nodeIDs = Get (store dht) (Args request ! 0);
                u = (if length nodeIDs > 0 then () else ())
            in andThen (send dht addr (MsgResponse (closestResponse dht request)))
                 (\<lambda>d. Returns (Some d))))
      else Returns None)"

text \<open>
  \<open>handleRequest\<close>. The result is the node after the call and the named result
  \<open>success\<close>, which is \<open>false\<close> at every bare \<open>return\<close>.
\<close>

definition handleRequest :: "constants \<Rightarrow> nat \<Rightarrow> DHT \<Rightarrow> UDPAddr \<Rightarrow> Request \<Rightarrow> (DHT \<times> bool) outcome" where
  "handleRequest K now dht addr request =
     (if Request.NodeID request = RawString (id' (node dht)) then Returns (dht, False)
      else
        andThen (methodSwitch K now dht addr request)
          (\<lambda>r. case r of
                  None \<Rightarrow> Returns (dht, False)
                | Some d \<Rightarrow>
                    Returns
                      (d\<lparr>routingTable :=
                           Update (routingTable d) (senderNode (Request.NodeID request) addr)\<rparr>,
                       True)))"

text \<open>\<open>handleResponse\<close> and \<open>handleError\<close>: the sender goes to the routing table.\<close>

definition handleResponse :: "DHT \<Rightarrow> UDPAddr \<Rightarrow> Response \<Rightarrow> DHT \<times> bool" where
  "handleResponse dht addr response =
     (dht\<lparr>routingTable :=
            Update (routingTable dht) (senderNode (Response.NodeID response) addr)\<rparr>,
      True)"

definition handleError :: "DHT \<Rightarrow> UDPAddr \<Rightarrow> Error \<Rightarrow> DHT \<times> bool" where
  "handleError dht addr e =
     (dht\<lparr>routingTable :=
            Update (routingTable dht) (senderNode (Error.NodeID e) addr)\<rparr>,
      True)"

text \<open>
  \<open>getArgs\<close>. \<open>None\<close> is the \<open>nil\<close> interface of a missing key: \<open>reflect.TypeOf\<close> of
  it is \<open>nil\<close> and the call of \<open>Kind\<close> panics. A value that is not a slice gives no
  arguments.
\<close>

definition getArgs :: "library \<Rightarrow> bvalue option \<Rightarrow> string list outcome" where
  "getArgs L argsInt =
     (case argsInt of
        None \<Rightarrow> Panic
      | Some (BList vs) \<Rightarrow> Returns (map (cast_ToString L) vs)
      | Some _ \<Rightarrow> Returns [])"

text \<open>
  The type assertions \<open>v.(int64)\<close> and \<open>v.(string)\<close> in their one-result form: they
  panic on a value of another type and on the \<open>nil\<close> of a missing key.
\<close>

definition assertInt64 :: "bvalue option \<Rightarrow> int outcome" where
  "assertInt64 v = (case v of Some (BInt i) \<Rightarrow> Returns i | _ \<Rightarrow> Panic)"

definition assertString :: "bvalue option \<Rightarrow> string outcome" where
  "assertString v = (case v of Some (BStr s) \<Rightarrow> Returns s | _ \<Rightarrow> Panic)"

text \<open>
  \<open>handle\<close>. The result is the node after the packet, or a panic. Each branch computes
  the arguments of its debug message before it calls the handler.
\<close>

definition handle :: "constants \<Rightarrow> library \<Rightarrow> nat \<Rightarrow> DHT \<Rightarrow> packet \<Rightarrow> DHT outcome" where
  "handle K L now dht pkt =
     (case DecodeBytes_map L (data pkt) of
        None \<Rightarrow> Returns dht
      | Some d \<Rightarrow>
          (case d (headerTypeField K) of
             None \<Rightarrow> Returns dht
           | Some msgType \<Rightarrow>
               andThen (assertInt64 (Some msgType))
                 (\<lambda>t. if t = requestType K then
                         (case DecodeBytes_Request L (data pkt) of
                            None \<Rightarrow> Returns dht
                          | Some request \<Rightarrow>
                              andThen (hexPrefix (Request.ID request)) (\<lambda>_.
                              andThen (hexPrefix (Request.NodeID request)) (\<lambda>_.
                              andThen (handleRequest K now dht (raddr pkt) request) (\<lambda>r.
                              Returns (fst r)))))
                       else if t = responseType K then
                         (case DecodeBytes_Response L (data pkt) of
                            None \<Rightarrow> Returns dht
                          | Some response \<Rightarrow>
                              andThen (hexPrefix (Response.ID response)) (\<lambda>_.
                              andThen (hexPrefix (Response.NodeID response)) (\<lambda>_.
                              Returns (fst (handleResponse dht (raddr pkt) response)))))
                       else if t = errorType K then
                         andThen (assertString (d (headerMessageIDField K))) (\<lambda>i.
                         andThen (assertString (d (headerNodeIDField K))) (\<lambda>n.
                         andThen (assertString (d (headerPayloadField K))) (\<lambda>x.
                         andThen (getArgs L (d (headerArgsField K))) (\<lambda>a.
                         andThen (hexPrefix i) (\<lambda>_.
                         andThen (hexPrefix n) (\<lambda>_.
                         Returns (fst (handleError dht (raddr pkt)
                           \<lparr>Error.ID = i, Error.NodeID = n, ExceptionType = x, Response = a\<rparr>))))))))
                       else Returns dht)))"

subsection \<open>Predicates of the statements\<close>

text \<open>
  The requests that pass the checks of their branch of \<open>handleRequest\<close>: a \<open>ping\<close>, a
  \<open>store\<close> with a content key, a \<open>findNode\<close> or \<open>findValue\<close> whose first argument has
  the length of an identifier.
\<close>

definition accepted :: "Request \<Rightarrow> bool" where
  "accepted r =
     (Method r = pingMethod
      \<or> (Method r = storeMethod \<and> BlobHash (StoreArgs r) \<noteq> '''')
      \<or> ((Method r = findNodeMethod \<or> Method r = findValueMethod)
          \<and> 1 \<le> length (Args r) \<and> length (Args r ! 0) = nodeIDLength))"

text \<open>The bucket of the routing table that \<open>Update\<close> looks at first for a contact.\<close>

definition targetBucket :: "RoutingTable \<Rightarrow> Node \<Rightarrow> bucket" where
  "targetBucket rt c =
     (let p = prefixLength (id' (rt_node rt)) (id' c)
      in if p < length (far rt) then far rt ! p else near rt)"

subsection \<open>Sample values\<close>

text \<open>
  Three identifiers of 48 bytes, a content key, and twenty-one identifiers that share
  no leading bit with \<open>idA\<close>.
\<close>

definition idA :: bitmap where
  "idA = replicate 48 (CHR ''a'')"

definition idB :: bitmap where
  "idB = replicate 48 (CHR ''b'')"

definition idP :: bitmap where
  "idP = replicate 48 (CHR ''p'')"

definition keyK :: string where
  "keyK = replicate 48 (CHR ''k'')"

definition farId :: "nat \<Rightarrow> bitmap" where
  "farId i = char_of (128 + i) # replicate 47 (CHR ''a'')"

definition farContact :: "nat \<Rightarrow> Node" where
  "farContact i = \<lparr>id' = farId i, ip = ''10.0.1.1'', port = 4000 + int i\<rparr>"

definition nodeA :: Node where
  "nodeA = \<lparr>id' = idA, ip = '''', port = 4444\<rparr>"

definition addrB :: UDPAddr where
  "addrB = \<lparr>IP = ''10.0.0.2'', Port = 4444\<rparr>"

definition addrP :: UDPAddr where
  "addrP = \<lparr>IP = ''10.0.0.3'', Port = 4444\<rparr>"

definition nodeB :: Node where
  "nodeB = \<lparr>id' = idB, ip = ''10.0.0.2'', port = 4444\<rparr>"

definition nodeP :: Node where
  "nodeP = \<lparr>id' = idP, ip = ''10.0.0.3'', port = 4444\<rparr>"

text \<open>Sample values of the constants and of the library functions.\<close>

definition sampleConstants :: constants where
  "sampleConstants =
     \<lparr>headerTypeField = ''0'', headerMessageIDField = ''1'', headerNodeIDField = ''2'',
      headerPayloadField = ''3'', headerArgsField = ''4'',
      requestType = 0, responseType = 1, errorType = 2,
      pingSuccessResponse = ''pong'', storeSuccessResponse = ''OK''\<rparr>"

definition sampleLibrary :: library where
  "sampleLibrary =
     \<lparr>DecodeBytes_map =
        (\<lambda>s. if s = ''d1:01:re'' then Some [''0'' \<mapsto> BStr ''r'']
             else if s = ''d1:0i2ee'' then Some [''0'' \<mapsto> BInt 2]
             else None),
      DecodeBytes_Request = (\<lambda>s. None),
      DecodeBytes_Response = (\<lambda>s. None),
      cast_ToString = (\<lambda>v. case v of BStr s \<Rightarrow> s | _ \<Rightarrow> ''''),
      cast_ToIntE = (\<lambda>s. if s = ''4444'' then Some 4444 else None),
      net_SplitHostPort =
        (\<lambda>s. if s = '':4444'' then Some ('''', ''4444'')
             else if s = ''localhost:dht'' then Some (''localhost'', ''dht'')
             else None),
      newBitmapFromHex = (\<lambda>s. Panic)\<rparr>"

text \<open>
  The node A with an empty routing table and an empty store, as \<open>New\<close> makes it; the
  node after P has stored \<open>keyK\<close> at time 7; the node with a full bucket of contacts that
  share no leading bit with its id.
\<close>

definition dhtA :: DHT where
  "dhtA = \<lparr>conf = NewStandardConfig, conn = [], node = nodeA,
           routingTable = newRoutingTable nodeA, store = newPeerStore\<rparr>"

definition storeReply :: Message where
  "storeReply = MsgResponse \<lparr>Response.ID = ''tx01'', Response.NodeID = idA,
                             Data = ''OK'', FindNodeData = []\<rparr>"

definition dhtStored :: DHT where
  "dhtStored = \<lparr>conf = NewStandardConfig, conn = [(addrP, storeReply)], node = nodeA,
                routingTable = \<lparr>rt_node = nodeA, far = [], near = [nodeP]\<rparr>,
                store = [keyK \<mapsto> [\<lparr>publisher = idP, storedAt = 7\<rparr>]]\<rparr>"

definition fullTable :: RoutingTable where
  "fullTable = \<lparr>rt_node = nodeA, far = [map farContact (rev [0..<20])], near = []\<rparr>"

definition dhtFull :: DHT where
  "dhtFull = \<lparr>conf = NewStandardConfig, conn = [], node = nodeA,
              routingTable = fullTable, store = newPeerStore\<rparr>"

text \<open>Sample requests and a sample response.\<close>

definition sampleRequest :: "string \<Rightarrow> string \<Rightarrow> string \<Rightarrow> string list \<Rightarrow> Request" where
  "sampleRequest i n m a =
     \<lparr>Request.ID = i, Request.NodeID = n, Method = m, Args = a,
      StoreArgs = \<lparr>BlobHash = '''', storeArgs.NodeID = ''''\<rparr>\<rparr>"

definition sampleStoreRequest :: "string \<Rightarrow> string \<Rightarrow> string \<Rightarrow> string \<Rightarrow> Request" where
  "sampleStoreRequest i n k p =
     \<lparr>Request.ID = i, Request.NodeID = n, Method = storeMethod, Args = [],
      StoreArgs = \<lparr>BlobHash = k, storeArgs.NodeID = p\<rparr>\<rparr>"

definition responseB :: Response where
  "responseB = \<lparr>Response.ID = ''tx09'', Response.NodeID = idB, Data = ''pong'', FindNodeData = []\<rparr>"

section \<open>Properties\<close>

subsection \<open>The branches of \<open>handleRequest\<close>\<close>

lemma length_EncodeToString: "length (EncodeToString s) = 2 * length s"
  by (induction s) (simp_all add: EncodeToString_def)

lemma hexPrefix_Returns: "4 \<le> length s \<Longrightarrow> hexPrefix s = Returns (take 8 (EncodeToString s))"
  by (simp add: hexPrefix_def sliceTo8_def length_EncodeToString)

lemma hexPrefix_Panic: "length s < 4 \<Longrightarrow> hexPrefix s = Panic"
  by (simp add: hexPrefix_def sliceTo8_def length_EncodeToString)

lemma send_Response:
  "4 \<le> length (Response.ID r) \<Longrightarrow>
   send dht addr (MsgResponse r) = Returns (dht\<lparr>conn := conn dht @ [(addr, MsgResponse r)]\<rparr>)"
  by (simp add: send_def hexPrefix_Returns)

lemma send_Response_short:
  "length (Response.ID r) < 4 \<Longrightarrow> send dht addr (MsgResponse r) = Panic"
  by (simp add: send_def hexPrefix_Panic)

lemma methods_distinct:
  "pingMethod \<noteq> storeMethod" "pingMethod \<noteq> findNodeMethod" "pingMethod \<noteq> findValueMethod"
  "storeMethod \<noteq> findNodeMethod" "storeMethod \<noteq> findValueMethod" "findNodeMethod \<noteq> findValueMethod"
  by (simp_all add: pingMethod_def storeMethod_def findNodeMethod_def findValueMethod_def)

lemma ID_closestResponse: "Response.ID (closestResponse dht r) = Request.ID r"
  by (simp add: closestResponse_def Let_def)

lemma handleRequest_self:
  "Request.NodeID r = RawString (id' (node dht)) \<Longrightarrow> handleRequest K now dht addr r = Returns (dht, False)"
  by (simp add: handleRequest_def)

lemma handleRequest_ping:
  assumes "Request.NodeID r \<noteq> RawString (id' (node dht))"
    and "4 \<le> length (Request.ID r)"
    and "Method r = pingMethod"
  shows "handleRequest K now dht addr r =
      Returns (dht\<lparr>conn := conn dht @ [(addr, MsgResponse
                       \<lparr>Response.ID = Request.ID r, Response.NodeID = RawString (id' (node dht)),
                        Data = pingSuccessResponse K, FindNodeData = []\<rparr>)],
                    routingTable := Update (routingTable dht) (senderNode (Request.NodeID r) addr)\<rparr>, True)"
  using assms by (simp add: handleRequest_def methodSwitch_def send_Response)

lemma handleRequest_store_empty:
  assumes "Method r = storeMethod" and "BlobHash (StoreArgs r) = ''''"
  shows "handleRequest K now dht addr r = Returns (dht, False)"
  using assms methods_distinct by (simp add: handleRequest_def methodSwitch_def)

lemma handleRequest_store:
  assumes "Request.NodeID r \<noteq> RawString (id' (node dht))"
    and "4 \<le> length (Request.ID r)"
    and "Method r = storeMethod" and "BlobHash (StoreArgs r) \<noteq> ''''"
  shows "handleRequest K now dht addr r =
      Returns (dht\<lparr>store := Insert now (BlobHash (StoreArgs r)) (storeArgs.NodeID (StoreArgs r)) (store dht),
                    conn := conn dht @ [(addr, MsgResponse
                       \<lparr>Response.ID = Request.ID r, Response.NodeID = RawString (id' (node dht)),
                        Data = storeSuccessResponse K, FindNodeData = []\<rparr>)],
                    routingTable := Update (routingTable dht) (senderNode (Request.NodeID r) addr)\<rparr>, True)"
  using assms methods_distinct by (simp add: handleRequest_def methodSwitch_def send_Response)

lemma handleRequest_find_rejected:
  assumes "Method r = findNodeMethod \<or> Method r = findValueMethod"
    and "length (Args r) < 1 \<or> length (Args r ! 0) \<noteq> nodeIDLength"
  shows "handleRequest K now dht addr r = Returns (dht, False)"
  using assms methods_distinct by (auto simp add: handleRequest_def methodSwitch_def)

lemma handleRequest_find:
  assumes "Request.NodeID r \<noteq> RawString (id' (node dht))"
    and "4 \<le> length (Request.ID r)"
    and "Method r = findNodeMethod \<or> Method r = findValueMethod"
    and "1 \<le> length (Args r)"
    and "length (Args r ! 0) = nodeIDLength"
  shows "handleRequest K now dht addr r =
      Returns (dht\<lparr>conn := conn dht @ [(addr, MsgResponse (closestResponse dht r))],
                    routingTable := Update (routingTable dht) (senderNode (Request.NodeID r) addr)\<rparr>, True)"
proof -
  from assms(4) have ne: "Args r \<noteq> []" by auto
  from assms(3) show ?thesis
  proof
    assume "Method r = findNodeMethod"
    with assms(1,2,5) ne methods_distinct show ?thesis
      by (simp add: handleRequest_def methodSwitch_def send_Response ID_closestResponse)
  next
    assume "Method r = findValueMethod"
    with assms(1,2,5) ne methods_distinct show ?thesis
      by (simp add: handleRequest_def methodSwitch_def send_Response ID_closestResponse Let_def)
  qed
qed

lemma handleRequest_unknown:
  assumes "Method r \<noteq> pingMethod" "Method r \<noteq> storeMethod"
    "Method r \<noteq> findNodeMethod" "Method r \<noteq> findValueMethod"
  shows "handleRequest K now dht addr r = Returns (dht, False)"
  using assms by (simp add: handleRequest_def methodSwitch_def)

lemma handleRequest_rejected:
  assumes "\<not> accepted r"
  shows "handleRequest K now dht addr r = Returns (dht, False)"
proof -
  consider "Method r = storeMethod" | "Method r = findNodeMethod \<or> Method r = findValueMethod"
    | "Method r \<noteq> pingMethod \<and> Method r \<noteq> storeMethod \<and> Method r \<noteq> findNodeMethod \<and> Method r \<noteq> findValueMethod"
    using assms by (auto simp: accepted_def)
  then show ?thesis
  proof cases
    case 1
    with assms have "BlobHash (StoreArgs r) = ''''" by (simp add: accepted_def)
    with 1 show ?thesis by (rule handleRequest_store_empty)
  next
    case 2
    with assms have "length (Args r) < 1 \<or> length (Args r ! 0) \<noteq> nodeIDLength"
      by (cases "Args r") (auto simp: accepted_def)
    with 2 show ?thesis by (rule handleRequest_find_rejected)
  next
    case 3
    then show ?thesis by (simp add: handleRequest_unknown)
  qed
qed

lemma handleRequest_accepted:
  assumes "Request.NodeID r \<noteq> RawString (id' (node dht))"
    and "4 \<le> length (Request.ID r)"
    and "accepted r"
  shows "\<exists>d. handleRequest K now dht addr r = Returns (d, True)
           \<and> routingTable d = Update (routingTable dht) (senderNode (Request.NodeID r) addr)"
proof -
  consider "Method r = pingMethod"
    | "Method r = storeMethod \<and> BlobHash (StoreArgs r) \<noteq> ''''"
    | "(Method r = findNodeMethod \<or> Method r = findValueMethod)
        \<and> 1 \<le> length (Args r) \<and> length (Args r ! 0) = nodeIDLength"
    using assms(3) by (auto simp: accepted_def)
  then show ?thesis
  proof cases
    case 1
    with assms(1,2) show ?thesis by (simp add: handleRequest_ping)
  next
    case 2
    with assms(1,2) show ?thesis by (simp add: handleRequest_store)
  next
    case 3
    with assms(1,2) show ?thesis by (simp add: handleRequest_find)
  qed
qed

subsection \<open>Routing table and store\<close>

lemma Update_local: "id' c = id' (rt_node rt) \<Longrightarrow> Update rt c = rt"
  by (simp add: Update_def)

lemma rt_node_Update: "rt_node (Update rt c) = rt_node rt"
  by (simp add: Update_def split: prod.split)

lemma Update_contains:
  assumes "id' c \<noteq> id' (rt_node rt)"
    and "length (targetBucket rt c) < bucketSize \<or> holds (targetBucket rt c) c"
  shows "c \<in> set (contacts (Update rt c))"
proof (cases "prefixLength (id' (rt_node rt)) (id' c) < length (far rt)")
  case True
  with assms show ?thesis
    by (subst Update_def, subst insertContact.simps)
      (auto simp: targetBucket_def contacts_def buckets_def moveToFront_def Let_def
        intro!: bexI [OF _ set_update_memI])
next
  case False
  with assms show ?thesis
    by (subst Update_def, subst insertContact.simps)
      (auto simp: targetBucket_def contacts_def buckets_def moveToFront_def Let_def)
qed

lemma Update_new: "id' c \<noteq> id' n \<Longrightarrow> contacts (Update (newRoutingTable n) c) = [c]"
  by (subst Update_def, subst insertContact.simps)
    (simp add: newRoutingTable_def contacts_def buckets_def holds_def bucketSize_def)

lemma length_FindClosest: "length (FindClosest rt t n) \<le> n"
  by (simp add: FindClosest_def)

lemma set_FindClosest: "set (FindClosest rt t n) \<subseteq> set (contacts rt)"
  by (auto simp: FindClosest_def dest: in_set_takeD)

lemma sorted_FindClosest: "sorted (map (\<lambda>c. distance t (id' c)) (FindClosest rt t n))"
  by (simp add: FindClosest_def take_map [symmetric] sorted_wrt_take del: take_map)

lemma publisher_refresh:
  "map publisher (map (\<lambda>r. if publisher r = p then r\<lparr>storedAt := now\<rparr> else r) rs) = map publisher rs"
  by (induction rs) auto

lemma Get_Insert:
  "Get (Insert now k p s) k = (if p \<in> set (Get s k) then Get s k else p # Get s k)"
  using publisher_refresh [of p now "recordsOf s k"]
  by (simp add: Get_def Insert_def recordsOf_def)

lemma Get_Insert_mem: "p \<in> set (Get (Insert now k p s) k)"
  by (simp add: Get_Insert)

lemma Get_Insert_other: "k' \<noteq> k \<Longrightarrow> Get (Insert now k p s) k' = Get s k'"
  by (simp add: Get_def Insert_def recordsOf_def)

subsection \<open>Facts about the sample values\<close>

lemma sample_ids:
  "idB \<noteq> idA" "idP \<noteq> idA" "idP \<noteq> idB" "idA \<noteq> idB" "idA \<noteq> idP" "idB \<noteq> idP"
  "length idA = 48" "length idB = 48" "length idP = 48" "length keyK = 48"
  by (simp_all add: idA_def idB_def idP_def keyK_def)

lemma dhtA_fields:
  "node dhtA = nodeA" "conn dhtA = []" "routingTable dhtA = newRoutingTable nodeA"
  "store dhtA = newPeerStore" "id' nodeA = idA"
  by (simp_all add: dhtA_def nodeA_def)

lemma dhtStored_fields:
  "node dhtStored = nodeA" "conn dhtStored = [(addrP, storeReply)]"
  "routingTable dhtStored = \<lparr>rt_node = nodeA, far = [], near = [nodeP]\<rparr>"
  "store dhtStored = [keyK \<mapsto> [\<lparr>publisher = idP, storedAt = 7\<rparr>]]"
  by (simp_all add: dhtStored_def)

subsection \<open>The routing table keeps the local node\<close>

lemma New_rt_node: "New L rnd c = Returns d \<Longrightarrow> rt_node (routingTable d) = node d"
  by (cases "if Config.NodeID (case c of None \<Rightarrow> NewStandardConfig | Some x \<Rightarrow> x) = [] then Returns rnd
             else newBitmapFromHex L (Config.NodeID (case c of None \<Rightarrow> NewStandardConfig | Some x \<Rightarrow> x))")
    (auto simp: New_def Let_def newRoutingTable_def split: option.splits)

lemma handleResponse_rt_node:
  "rt_node (routingTable (fst (handleResponse dht addr r))) = rt_node (routingTable dht)
   \<and> node (fst (handleResponse dht addr r)) = node dht"
  by (simp add: handleResponse_def rt_node_Update)

lemma handleError_rt_node:
  "rt_node (routingTable (fst (handleError dht addr e))) = rt_node (routingTable dht)
   \<and> node (fst (handleError dht addr e)) = node dht"
  by (simp add: handleError_def rt_node_Update)

lemma send_fields:
  "send dht addr m = Returns d \<Longrightarrow>
   node d = node dht \<and> routingTable d = routingTable dht \<and> store d = store dht"
  by (cases m) (auto simp: send_def hexPrefix_def sliceTo8_def split: if_splits)

lemma methodSwitch_fields:
  assumes "methodSwitch K now dht addr r = Returns (Some d)"
  shows "node d = node dht \<and> routingTable d = routingTable dht"
proof -
  have *: "andThen (send x addr m) (\<lambda>d. Returns (Some d)) = Returns (Some d)
      \<Longrightarrow> node d = node x \<and> routingTable d = routingTable x" for x m
    by (cases "send x addr m") (auto dest: send_fields)
  from assms show ?thesis
    by (auto simp: methodSwitch_def Let_def split: if_splits dest!: *)
qed

lemma handleRequest_rt_node:
  assumes "handleRequest K now dht addr r = Returns (d, b)"
  shows "rt_node (routingTable d) = rt_node (routingTable dht) \<and> node d = node dht"
proof (cases "methodSwitch K now dht addr r")
  case Panic
  with assms show ?thesis by (auto simp: handleRequest_def split: if_splits)
next
  case (Returns x)
  with assms show ?thesis
    by (cases x) (auto simp: handleRequest_def rt_node_Update split: if_splits dest: methodSwitch_fields)
qed

subsection \<open>Protocol constants\<close>

text \<open>
  Claim C9: the constants of the protocol have the values of the spec. \<open>nodeIDLength\<close>
  is 48 bytes, that is 384 bits, and \<open>numBuckets\<close> is \<open>8 * 48 = 384\<close>; \<open>bucketSize\<close> is
  20; \<open>alpha\<close> is 3; \<open>compactNodeInfoLength\<close> is \<open>nodeIDLength + 6 = 54\<close>, an
  identifier with 4 bytes of address and 2 bytes of port.
\<close>

theorem protocol_constants:
  "nodeIDLength = 48 \<and> 8 * nodeIDLength = 384 \<and> numBuckets = 8 * nodeIDLength \<and> numBuckets = 384
   \<and> bucketSize = 20 \<and> alpha = 3
   \<and> compactNodeInfoLength = nodeIDLength + 6 \<and> compactNodeInfoLength = 54
   \<and> compactNodeInfoLength = nodeIDLength + 4 + 2"
  by (simp add: nodeIDLength_def numBuckets_def bucketSize_def alpha_def
      compactNodeInfoLength_def)

subsection \<open>Self-referential traffic\<close>

text \<open>
  Claim C4: a request or a response whose sender id is the local id is ignored: no
  reply is sent and the routing table and the record store stay as they are.
  \<open>handleRequest\<close> returns at once with the node unchanged. \<open>handleResponse\<close> has no test
  of its own; it passes the sender to \<open>Update\<close>, which is a no-op on the local id, so the
  node is unchanged too. The routing table is the one of the local node
  (\<open>rt_node (routingTable dht) = node dht\<close>), as \<open>New\<close> makes it.
\<close>

theorem self_traffic_changes_nothing:
  "(Request.NodeID request = RawString (id' (node dht))
      \<longrightarrow> handleRequest K now dht addr request = Returns (dht, False))
   \<and> (Response.NodeID response = RawString (id' (node dht)) \<and> rt_node (routingTable dht) = node dht
      \<longrightarrow> handleResponse dht addr response = (dht, True))"
  by (simp add: handleRequest_self handleResponse_def senderNode_def newBitmapFromString_def
      RawString_def Update_local)

theorem self_traffic_changes_nothing_witness:
  "Request.NodeID (sampleRequest ''tx03'' idA pingMethod []) = RawString (id' (node dhtStored))
   \<and> handleRequest sampleConstants 9 dhtStored addrB (sampleRequest ''tx03'' idA pingMethod [])
       = Returns (dhtStored, False)
   \<and> Response.NodeID (responseB\<lparr>Response.NodeID := idA\<rparr>) = RawString (id' (node dhtStored))
   \<and> rt_node (routingTable dhtStored) = node dhtStored
   \<and> handleResponse dhtStored addrB (responseB\<lparr>Response.NodeID := idA\<rparr>) = (dhtStored, True)"
  using self_traffic_changes_nothing [of "sampleRequest ''tx03'' idA pingMethod []" dhtStored
      sampleConstants 9 addrB "responseB\<lparr>Response.NodeID := idA\<rparr>"]
  by (simp add: sampleRequest_def dhtStored_fields dhtA_fields RawString_def)

subsection \<open>Responses\<close>

text \<open>
  Claim C5 as stated fails. The node A has sent nothing and has an empty routing table,
  so the response of B answers no request of A; \<open>handleResponse\<close> records B all the
  same and the node changes.
\<close>

theorem uncorrelated_response_counterexample:
  "conn dhtA = [] \<and> Response.NodeID responseB \<noteq> RawString (id' (node dhtA))
   \<and> contacts (routingTable dhtA) = []
   \<and> contacts (routingTable (fst (handleResponse dhtA addrB responseB))) = [nodeB]
   \<and> fst (handleResponse dhtA addrB responseB) \<noteq> dhtA"
proof -
  have 1: "contacts (routingTable (fst (handleResponse dhtA addrB responseB))) = [nodeB]"
    using Update_new [of nodeB nodeA] sample_ids
    by (simp add: handleResponse_def dhtA_fields senderNode_def responseB_def
        newBitmapFromString_def nodeB_def addrB_def)
  have 2: "contacts (routingTable dhtA) = []"
    by (simp add: dhtA_fields newRoutingTable_def contacts_def buckets_def)
  from 1 2 have "fst (handleResponse dhtA addrB responseB) \<noteq> dhtA" by auto
  with 1 2 sample_ids show ?thesis
    by (simp add: dhtA_fields responseB_def RawString_def)
qed

text \<open>
  Claim C5, amended: \<open>handleResponse\<close> sends no reply and leaves the record store as it
  is, and reports success; the node keeps no set of pending transactions, and the sender
  of every response, correlated or not, goes to the routing table through \<open>Update\<close>.
\<close>

theorem handleResponse_records_sender:
  "conn (fst (handleResponse dht addr response)) = conn dht
   \<and> store (fst (handleResponse dht addr response)) = store dht
   \<and> routingTable (fst (handleResponse dht addr response))
       = Update (routingTable dht) (senderNode (Response.NodeID response) addr)
   \<and> snd (handleResponse dht addr response) = True"
  by (simp add: handleResponse_def)

subsection \<open>New\<close>

text \<open>
  Claim C10: \<open>New(nil)\<close> returns a node with the standard configuration (the address
  \<open>:4444\<close>, the three seed nodes) and the random identifier, given that the library splits
  \<open>:4444\<close> into the empty host and the port \<open>4444\<close> and reads \<open>4444\<close> as an integer. For a
  config whose address the library cannot split, or whose port it cannot read as an
  integer, \<open>New\<close> panics.
\<close>

theorem New_defaults_and_panics:
  "(net_SplitHostPort L '':4444'' = Some ('''', ''4444'') \<and> cast_ToIntE L ''4444'' = Some 4444
      \<longrightarrow> New L rnd None =
            Returns \<lparr>conf = \<lparr>Address = '':4444'',
                              SeedNodes = [''lbrynet1.lbry.io:4444'', ''lbrynet2.lbry.io:4444'',
                                           ''lbrynet3.lbry.io:4444''],
                              Config.NodeID = ''''\<rparr>,
                     conn = [], node = \<lparr>id' = rnd, ip = '''', port = 4444\<rparr>,
                     routingTable = newRoutingTable \<lparr>id' = rnd, ip = '''', port = 4444\<rparr>,
                     store = newPeerStore\<rparr>)
   \<and> (net_SplitHostPort L (Address c) = None \<longrightarrow> New L rnd (Some c) = Panic)
   \<and> (net_SplitHostPort L (Address c) = Some (h, p) \<and> cast_ToIntE L p = None
      \<longrightarrow> New L rnd (Some c) = Panic)"
proof -
  have a: "andThen x (\<lambda>i. Panic) = Panic" for x :: "bitmap outcome"
    by (cases x) simp_all
  show ?thesis
    by (auto simp: New_def NewStandardConfig_def Let_def a)
qed

theorem New_defaults_and_panics_witness:
  "net_SplitHostPort sampleLibrary '':4444'' = Some ('''', ''4444'')
   \<and> cast_ToIntE sampleLibrary ''4444'' = Some 4444
   \<and> New sampleLibrary idA None = Returns dhtA
   \<and> net_SplitHostPort sampleLibrary (Address (NewStandardConfig\<lparr>Address := ''localhost''\<rparr>)) = None
   \<and> New sampleLibrary idA (Some (NewStandardConfig\<lparr>Address := ''localhost''\<rparr>)) = Panic
   \<and> net_SplitHostPort sampleLibrary (Address (NewStandardConfig\<lparr>Address := ''localhost:dht''\<rparr>))
       = Some (''localhost'', ''dht'')
   \<and> cast_ToIntE sampleLibrary ''dht'' = None
   \<and> New sampleLibrary idA (Some (NewStandardConfig\<lparr>Address := ''localhost:dht''\<rparr>)) = Panic"
  using New_defaults_and_panics [of sampleLibrary idA "NewStandardConfig\<lparr>Address := ''localhost''\<rparr>"]
    New_defaults_and_panics [of sampleLibrary idA "NewStandardConfig\<lparr>Address := ''localhost:dht''\<rparr>"
      "''localhost''" "''dht''"]
  by (simp add: sampleLibrary_def dhtA_def nodeA_def NewStandardConfig_def)

subsection \<open>Decoding\<close>

lemma andThen_Panic: "andThen x (\<lambda>_. Panic) = Panic"
  by (cases x) simp_all

text \<open>
  Claim C3 says that decoding never panics. \<open>handle\<close> drops a packet that does not
  decode and a packet with no message type, but it asserts the type of the fields with
  the one-result form of the type assertion: a message type that is not an integer
  panics, and so does a message of the error type in which the message id, the node id
  or the exception type is missing or is not a string, or the arguments are missing.
\<close>

theorem handle_panics_on_wrong_field_type:
  "DecodeBytes_map L (data pkt) = Some d \<Longrightarrow>
   (\<forall>v. d (headerTypeField K) = Some v \<and> (\<forall>i. v \<noteq> BInt i) \<longrightarrow> handle K L now dht pkt = Panic)
   \<and> (d (headerTypeField K) = Some (BInt (errorType K))
       \<and> errorType K \<noteq> requestType K \<and> errorType K \<noteq> responseType K
       \<and> ((\<forall>s. d (headerMessageIDField K) \<noteq> Some (BStr s))
           \<or> (\<forall>s. d (headerNodeIDField K) \<noteq> Some (BStr s))
           \<or> (\<forall>s. d (headerPayloadField K) \<noteq> Some (BStr s))
           \<or> d (headerArgsField K) = None)
      \<longrightarrow> handle K L now dht pkt = Panic)"
proof (intro conjI allI impI)
  fix v
  assume m: "DecodeBytes_map L (data pkt) = Some d"
    and v: "d (headerTypeField K) = Some v \<and> (\<forall>i. v \<noteq> BInt i)"
  then have "assertInt64 (Some v) = Panic"
    by (cases v) (simp_all add: assertInt64_def)
  with m v show "handle K L now dht pkt = Panic"
    by (simp add: handle_def)
next
  assume m: "DecodeBytes_map L (data pkt) = Some d"
    and e: "d (headerTypeField K) = Some (BInt (errorType K))
       \<and> errorType K \<noteq> requestType K \<and> errorType K \<noteq> responseType K
       \<and> ((\<forall>s. d (headerMessageIDField K) \<noteq> Some (BStr s))
           \<or> (\<forall>s. d (headerNodeIDField K) \<noteq> Some (BStr s))
           \<or> (\<forall>s. d (headerPayloadField K) \<noteq> Some (BStr s))
           \<or> d (headerArgsField K) = None)"
  have s: "(\<forall>s. x \<noteq> Some (BStr s)) \<Longrightarrow> assertString x = Panic" for x
    by (auto simp: assertString_def split: option.splits bvalue.splits)
  have p: "andThen (assertString (d (headerMessageIDField K))) (\<lambda>i.
           andThen (assertString (d (headerNodeIDField K))) (\<lambda>n.
           andThen (assertString (d (headerPayloadField K))) (\<lambda>x.
           andThen (getArgs L (d (headerArgsField K))) (\<lambda>a. f i n x a)))) = Panic" for f
  proof (cases "assertString (d (headerMessageIDField K))")
    case Panic
    then show ?thesis by simp
  next
    case i: (Returns i)
    show ?thesis
    proof (cases "assertString (d (headerNodeIDField K))")
      case Panic
      with i show ?thesis by simp
    next
      case n: (Returns n)
      show ?thesis
      proof (cases "assertString (d (headerPayloadField K))")
        case Panic
        with i n show ?thesis by simp
      next
        case x: (Returns x)
        from e i n x s have "d (headerArgsField K) = None" by fastforce
        with i n x show ?thesis by (simp add: getArgs_def)
      qed
    qed
  qed
  from m e show "handle K L now dht pkt = Panic"
    by (simp add: handle_def assertInt64_def p)
qed

theorem handle_panics_on_wrong_field_type_witness:
  "DecodeBytes_map sampleLibrary (data \<lparr>data = ''d1:01:re'', raddr = addrB\<rparr>) = Some [''0'' \<mapsto> BStr ''r'']
   \<and> [''0'' \<mapsto> BStr ''r''] (headerTypeField sampleConstants) = Some (BStr ''r'')
   \<and> handle sampleConstants sampleLibrary 0 dhtA \<lparr>data = ''d1:01:re'', raddr = addrB\<rparr> = Panic
   \<and> DecodeBytes_map sampleLibrary (data \<lparr>data = ''d1:0i2ee'', raddr = addrB\<rparr>) = Some [''0'' \<mapsto> BInt 2]
   \<and> [''0'' \<mapsto> BInt 2] (headerTypeField sampleConstants) = Some (BInt (errorType sampleConstants))
   \<and> [''0'' \<mapsto> BInt 2] (headerArgsField sampleConstants) = None
   \<and> handle sampleConstants sampleLibrary 0 dhtA \<lparr>data = ''d1:0i2ee'', raddr = addrB\<rparr> = Panic"
  using handle_panics_on_wrong_field_type [of sampleLibrary "\<lparr>data = ''d1:01:re'', raddr = addrB\<rparr>"
      "[''0'' \<mapsto> BStr ''r'']" sampleConstants 0 dhtA]
    handle_panics_on_wrong_field_type [of sampleLibrary "\<lparr>data = ''d1:0i2ee'', raddr = addrB\<rparr>"
      "[''0'' \<mapsto> BInt 2]" sampleConstants 0 dhtA]
  by (simp add: sampleLibrary_def sampleConstants_def)

lemma handle_drops_undecodable:
  "DecodeBytes_map L (data pkt) = None \<Longrightarrow> handle K L now dht pkt = Returns dht"
  "DecodeBytes_map L (data pkt) = Some d \<Longrightarrow> d (headerTypeField K) = None
     \<Longrightarrow> handle K L now dht pkt = Returns dht"
  by (simp_all add: handle_def)

lemma handle_panics_on_short_request_id:
  "DecodeBytes_map L (data pkt) = Some d \<Longrightarrow> d (headerTypeField K) = Some (BInt (requestType K))
   \<Longrightarrow> DecodeBytes_Request L (data pkt) = Some r \<Longrightarrow> length (Request.ID r) < 4
   \<Longrightarrow> handle K L now dht pkt = Panic"
  by (simp add: handle_def assertInt64_def hexPrefix_Panic)

subsection \<open>findValue\<close>

lemma Update_new_table:
  "id' c \<noteq> id' n \<Longrightarrow> Update (newRoutingTable n) c = \<lparr>rt_node = n, far = [], near = [c]\<rparr>"
  by (subst Update_def, subst insertContact.simps)
    (simp add: newRoutingTable_def holds_def bucketSize_def)

lemma Update_nodeB: 
  "Update \<lparr>rt_node = nodeA, far = [], near = [nodeP]\<rparr> nodeB
     = \<lparr>rt_node = nodeA, far = [], near = [nodeB, nodeP]\<rparr>"
  by code_simp

lemma FindClosest_stored: "FindClosest \<lparr>rt_node = nodeA, far = [], near = [nodeP]\<rparr> keyK bucketSize = [nodeP]"
  by (simp add: FindClosest_def contacts_def buckets_def bucketSize_def)

lemma senders:
  "senderNode idB addrB = nodeB" "senderNode idP addrP = nodeP"
  by (simp_all add: senderNode_def newBitmapFromString_def nodeB_def nodeP_def addrB_def addrP_def)

lemma store_step:
  "handleRequest sampleConstants 7 dhtA addrP (sampleStoreRequest ''tx01'' idP keyK idP)
     = Returns (dhtStored, True)"
proof -
  have "Update (newRoutingTable nodeA) nodeP = \<lparr>rt_node = nodeA, far = [], near = [nodeP]\<rparr>"
    using sample_ids by (simp add: Update_new_table nodeA_def nodeP_def)
  moreover have "Insert 7 keyK idP newPeerStore = [keyK \<mapsto> [\<lparr>publisher = idP, storedAt = 7\<rparr>]]"
    by (simp add: Insert_def newPeerStore_def recordsOf_def)
  moreover have "keyK \<noteq> []" by (simp add: keyK_def)
  ultimately show ?thesis
    using sample_ids
      handleRequest_store [of "sampleStoreRequest ''tx01'' idP keyK idP" dhtA sampleConstants 7 addrP]
    by (simp add: sampleStoreRequest_def dhtA_fields RawString_def senders dhtStored_def dhtA_def
        storeReply_def sampleConstants_def)
qed

text \<open>
  Claim C1 says that a \<open>findValue\<close> request for a key with records in the store is
  answered with the stored values and not with a list of contacts. The code answers every
  \<open>findValue\<close> request that passes the checks with the response of \<open>findNode\<close>: the
  closest contacts in \<open>FindNodeData\<close> and no data, whatever the store holds. In the
  example P stores \<open>keyK\<close> at the node A; the \<open>findValue\<close> request of B for \<open>keyK\<close> is
  answered with the contact P and not with the stored value.
\<close>

theorem findValue_reply_ignores_the_store:
  assumes "Request.NodeID request \<noteq> RawString (id' (node dht))"
    and "4 \<le> length (Request.ID request)"
    and "Method request = findValueMethod"
    and "1 \<le> length (Args request)"
    and "length (Args request ! 0) = nodeIDLength"
  shows "handleRequest K now dht addr request =
      Returns (dht\<lparr>conn := conn dht @ [(addr, MsgResponse
                       \<lparr>Response.ID = Request.ID request,
                        Response.NodeID = RawString (id' (node dht)),
                        Data = '''',
                        FindNodeData = FindClosest (routingTable dht)
                                         (newBitmapFromString (Args request ! 0)) bucketSize\<rparr>)],
                    routingTable := Update (routingTable dht)
                                      (senderNode (Request.NodeID request) addr)\<rparr>, True)"
  using assms handleRequest_find [of request dht K now addr]
  by (simp add: closestResponse_def Let_def)

theorem findValue_reply_ignores_the_store_witness:
  "handleRequest sampleConstants 7 dhtA addrP (sampleStoreRequest ''tx01'' idP keyK idP)
     = Returns (dhtStored, True)
   \<and> Get (store dhtStored) keyK = [idP]
   \<and> handleRequest sampleConstants 9 dhtStored addrB (sampleRequest ''tx02'' idB findValueMethod [keyK])
     = Returns (dhtStored\<lparr>conn := [(addrP, storeReply),
                                    (addrB, MsgResponse \<lparr>Response.ID = ''tx02'', Response.NodeID = idA,
                                                         Data = '''', FindNodeData = [nodeP]\<rparr>)],
                          routingTable := \<lparr>rt_node = nodeA, far = [], near = [nodeB, nodeP]\<rparr>\<rparr>, True)"
proof -
  have "Get (store dhtStored) keyK = [idP]"
    by (simp add: dhtStored_fields Get_def recordsOf_def)
  with store_step sample_ids
    findValue_reply_ignores_the_store [of "sampleRequest ''tx02'' idB findValueMethod [keyK]"
      dhtStored sampleConstants 9 addrB]
  show ?thesis
    by (simp add: sampleRequest_def dhtStored_fields dhtA_fields RawString_def nodeIDLength_def
        newBitmapFromString_def FindClosest_stored senders Update_nodeB)
qed

subsection \<open>Recording the sender\<close>

lemma contacts_new: "contacts (newRoutingTable n) = []"
  by (simp add: newRoutingTable_def contacts_def buckets_def)

lemma Update_nodeB_new: "Update (newRoutingTable nodeA) nodeB = \<lparr>rt_node = nodeA, far = [], near = [nodeB]\<rparr>"
  using sample_ids by (simp add: Update_new_table nodeA_def nodeB_def)

lemma newRoutingTable_changed: "newRoutingTable nodeA \<noteq> Update (newRoutingTable nodeA) nodeB"
  unfolding Update_nodeB_new by (simp add: newRoutingTable_def)

text \<open>
  Claim C2 as stated fails: \<open>handleRequest\<close> leaves at the \<open>return\<close> of a rejected
  request before it reaches the call of \<open>Update\<close>. The node A with an empty routing table
  receives from B a \<open>store\<close> request with an empty content key, a \<open>findNode\<close> request with
  no argument, a \<open>findValue\<close> request with a short argument and a request with an unknown
  method; each leaves the node as it was, and the routing table is not the one that
  \<open>Update\<close> gives for B.
\<close>

theorem rejected_request_counterexample:
  "Request.NodeID (sampleStoreRequest ''tx04'' idB '''' idP) \<noteq> RawString (id' (node dhtA))
   \<and> handleRequest sampleConstants 0 dhtA addrB (sampleStoreRequest ''tx04'' idB '''' idP)
       = Returns (dhtA, False)
   \<and> handleRequest sampleConstants 0 dhtA addrB (sampleRequest ''tx04'' idB findNodeMethod [])
       = Returns (dhtA, False)
   \<and> handleRequest sampleConstants 0 dhtA addrB (sampleRequest ''tx04'' idB findValueMethod [''short''])
       = Returns (dhtA, False)
   \<and> handleRequest sampleConstants 0 dhtA addrB (sampleRequest ''tx04'' idB ''announce'' [])
       = Returns (dhtA, False)
   \<and> routingTable dhtA
       \<noteq> Update (routingTable dhtA)
           (senderNode (Request.NodeID (sampleStoreRequest ''tx04'' idB '''' idP)) addrB)"
proof -
  have "\<not> accepted (sampleStoreRequest ''tx04'' idB '''' idP)"
    "\<not> accepted (sampleRequest ''tx04'' idB findNodeMethod [])"
    "\<not> accepted (sampleRequest ''tx04'' idB findValueMethod [''short''])"
    "\<not> accepted (sampleRequest ''tx04'' idB ''announce'' [])"
    using methods_distinct
    by (simp_all add: accepted_def sampleStoreRequest_def sampleRequest_def nodeIDLength_def
        pingMethod_def storeMethod_def findNodeMethod_def findValueMethod_def)
  then show ?thesis
    using sample_ids newRoutingTable_changed
    by (simp add: handleRequest_rejected)
      (simp add: sampleStoreRequest_def dhtA_fields RawString_def senders)
qed

text \<open>
  Claim C2, amended: for a request from a sender whose id differs from the local id and
  whose transaction id has at least 4 bytes, the sender is recorded through \<open>Update\<close>, and
  the call reports success, whenever the request passes the checks of its method (a
  \<open>ping\<close>, a \<open>store\<close> with a content key, a \<open>findNode\<close> or \<open>findValue\<close> whose first
  argument has 48 bytes); every other request returns without success and leaves the node
  as it was.
\<close>

theorem accepted_request_records_sender:
  assumes "Request.NodeID request \<noteq> RawString (id' (node dht))"
    and "4 \<le> length (Request.ID request)"
  shows "(accepted request \<longrightarrow>
            (\<exists>d. handleRequest K now dht addr request = Returns (d, True)
                \<and> routingTable d
                    = Update (routingTable dht) (senderNode (Request.NodeID request) addr)))
         \<and> (\<not> accepted request \<longrightarrow> handleRequest K now dht addr request = Returns (dht, False))"
  using assms by (simp add: handleRequest_accepted handleRequest_rejected)

theorem accepted_request_records_sender_witness:
  "Request.NodeID (sampleRequest ''tx05'' idB pingMethod []) \<noteq> RawString (id' (node dhtA))
   \<and> 4 \<le> length (Request.ID (sampleRequest ''tx05'' idB pingMethod []))
   \<and> accepted (sampleRequest ''tx05'' idB pingMethod [])
   \<and> (\<exists>d. handleRequest sampleConstants 0 dhtA addrB (sampleRequest ''tx05'' idB pingMethod [])
              = Returns (d, True)
          \<and> routingTable d = \<lparr>rt_node = nodeA, far = [], near = [nodeB]\<rparr>)
   \<and> Request.NodeID (sampleRequest ''tx06'' idB ''announce'' []) \<noteq> RawString (id' (node dhtA))
   \<and> 4 \<le> length (Request.ID (sampleRequest ''tx06'' idB ''announce'' []))
   \<and> \<not> accepted (sampleRequest ''tx06'' idB ''announce'' [])
   \<and> handleRequest sampleConstants 0 dhtA addrB (sampleRequest ''tx06'' idB ''announce'' [])
       = Returns (dhtA, False)"
proof -
  have a: "accepted (sampleRequest ''tx05'' idB pingMethod [])"
    by (simp add: accepted_def sampleRequest_def)
  have b: "\<not> accepted (sampleRequest ''tx06'' idB ''announce'' [])"
    by (simp add: accepted_def sampleRequest_def
        pingMethod_def storeMethod_def findNodeMethod_def findValueMethod_def)
  have c: "Request.NodeID (sampleRequest i idB m as) \<noteq> RawString (id' (node dhtA))"
    "Request.NodeID (sampleRequest i idB m as) = idB" for i m as
    using sample_ids by (simp_all add: sampleRequest_def dhtA_fields RawString_def)
  have d: "4 \<le> length (Request.ID (sampleRequest ''tx05'' idB m as))"
    "4 \<le> length (Request.ID (sampleRequest ''tx06'' idB m as))" for m as
    by (simp_all add: sampleRequest_def)
  from accepted_request_records_sender [OF c(1) d(1), of pingMethod "[]" sampleConstants 0 addrB]
    accepted_request_records_sender [OF c(1) d(2), of "''announce''" "[]" sampleConstants 0 addrB]
    a b c d
  show ?thesis
    by (simp add: dhtA_fields senders Update_nodeB_new)
qed

subsection \<open>ping\<close>

lemma fullTable_reached:
  "foldl Update (newRoutingTable nodeA) (map farContact [0..<21]) = fullTable"
  by code_simp

lemma fullTable_drops:
  "Update fullTable \<lparr>id' = farId 20, ip = ''10.0.0.2'', port = 4444\<rparr> = fullTable"
  by code_simp

lemma fullTable_ids:
  "farId 20 \<noteq> idA" "farId 20 \<notin> set (map id' (contacts fullTable))"
  "length (contacts fullTable) = 20"
  by code_simp+

text \<open>
  Claim C6 as stated fails on a full bucket. After the contacts \<open>farContact 0\<close> to
  \<open>farContact 20\<close>, which share no leading bit with the id of A, went through \<open>Update\<close>,
  the routing table of A has one full bucket of twenty of them, which does not cover the
  id of A. A \<open>ping\<close> of the peer with the id \<open>farId 20\<close> is answered, and the peer is not
  in the routing table afterwards.
\<close>

theorem ping_full_bucket_counterexample:
  "Method (sampleRequest ''tx07'' (farId 20) pingMethod []) = pingMethod
   \<and> Request.NodeID (sampleRequest ''tx07'' (farId 20) pingMethod []) \<noteq> RawString (id' (node dhtFull))
   \<and> routingTable dhtFull = foldl Update (newRoutingTable nodeA) (map farContact [0..<21])
   \<and> handleRequest sampleConstants 0 dhtFull addrB (sampleRequest ''tx07'' (farId 20) pingMethod [])
       = Returns (dhtFull\<lparr>conn := [(addrB, MsgResponse
                                \<lparr>Response.ID = ''tx07'', Response.NodeID = idA,
                                 Data = ''pong'', FindNodeData = []\<rparr>)]\<rparr>, True)
   \<and> farId 20 \<notin> set (map id' (contacts (routingTable dhtFull)))"
proof -
  have f: "node dhtFull = nodeA" "routingTable dhtFull = fullTable" "conn dhtFull = []"
    by (simp_all add: dhtFull_def)
  have r: "Request.NodeID (sampleRequest ''tx07'' (farId 20) pingMethod []) = farId 20"
    "Request.ID (sampleRequest ''tx07'' (farId 20) pingMethod []) = ''tx07''"
    "Method (sampleRequest ''tx07'' (farId 20) pingMethod []) = pingMethod"
    by (simp_all add: sampleRequest_def)
  have s: "senderNode (farId 20) addrB = \<lparr>id' = farId 20, ip = ''10.0.0.2'', port = 4444\<rparr>"
    by (simp add: senderNode_def newBitmapFromString_def addrB_def)
  have "handleRequest sampleConstants 0 dhtFull addrB (sampleRequest ''tx07'' (farId 20) pingMethod [])
       = Returns (dhtFull\<lparr>conn := [(addrB, MsgResponse
                                \<lparr>Response.ID = ''tx07'', Response.NodeID = idA,
                                 Data = ''pong'', FindNodeData = []\<rparr>)]\<rparr>, True)"
    using fullTable_ids(1)
      handleRequest_ping [of "sampleRequest ''tx07'' (farId 20) pingMethod []" dhtFull sampleConstants 0 addrB]
    by (simp add: r f s dhtA_fields RawString_def fullTable_drops sampleConstants_def)
  with fullTable_ids fullTable_reached show ?thesis
    by (simp add: r f dhtA_fields RawString_def)
qed

text \<open>
  Claim C6, amended: a \<open>ping\<close> request with a transaction id of at least 4 bytes, from
  a peer whose id differs from the local id, is answered with the fixed success payload
  of \<open>ping\<close>, and the sender is passed to \<open>Update\<close>. Afterwards the routing table
  holds the sender's contact when the sender's bucket had room or held the sender's id
  already, and in particular when the routing table was empty: then the sender is its
  only contact.
\<close>

theorem ping_reply_and_update:
  assumes "Method request = pingMethod"
    and "Request.NodeID request \<noteq> RawString (id' (node dht))"
    and "4 \<le> length (Request.ID request)"
  shows "\<exists>d. handleRequest K now dht addr request = Returns (d, True)
     \<and> conn d = conn dht @ [(addr, MsgResponse
                   \<lparr>Response.ID = Request.ID request, Response.NodeID = RawString (id' (node dht)),
                    Data = pingSuccessResponse K, FindNodeData = []\<rparr>)]
     \<and> store d = store dht
     \<and> routingTable d = Update (routingTable dht) (senderNode (Request.NodeID request) addr)
     \<and> (rt_node (routingTable dht) = node dht
         \<and> (length (targetBucket (routingTable dht) (senderNode (Request.NodeID request) addr)) < bucketSize
            \<or> holds (targetBucket (routingTable dht) (senderNode (Request.NodeID request) addr))
                 (senderNode (Request.NodeID request) addr))
        \<longrightarrow> senderNode (Request.NodeID request) addr \<in> set (contacts (routingTable d)))
     \<and> (routingTable dht = newRoutingTable (node dht)
        \<longrightarrow> contacts (routingTable d) = [senderNode (Request.NodeID request) addr])"
proof -
  let ?c = "senderNode (Request.NodeID request) addr"
  have i: "id' ?c \<noteq> id' (node dht)"
    using assms(2) by (simp add: senderNode_def newBitmapFromString_def RawString_def)
  have a: "rt_node (routingTable dht) = node dht
         \<and> (length (targetBucket (routingTable dht) ?c) < bucketSize
            \<or> holds (targetBucket (routingTable dht) ?c) ?c)
        \<longrightarrow> ?c \<in> set (contacts (Update (routingTable dht) ?c))"
    using i by (auto intro: Update_contains)
  have b: "routingTable dht = newRoutingTable (node dht)
        \<longrightarrow> contacts (Update (routingTable dht) ?c) = [?c]"
    using i by (simp add: Update_new)
  from a b show ?thesis
    by (simp add: handleRequest_ping [OF assms(2,3,1)])
qed

theorem ping_reply_and_update_witness:
  "Method (sampleRequest ''tx05'' idB pingMethod []) = pingMethod
   \<and> Request.NodeID (sampleRequest ''tx05'' idB pingMethod []) \<noteq> RawString (id' (node dhtA))
   \<and> 4 \<le> length (Request.ID (sampleRequest ''tx05'' idB pingMethod []))
   \<and> routingTable dhtA = newRoutingTable (node dhtA)
   \<and> (\<exists>d. handleRequest sampleConstants 0 dhtA addrB (sampleRequest ''tx05'' idB pingMethod [])
             = Returns (d, True)
          \<and> conn d = [(addrB, MsgResponse \<lparr>Response.ID = ''tx05'', Response.NodeID = idA,
                                            Data = ''pong'', FindNodeData = []\<rparr>)]
          \<and> contacts (routingTable d) = [nodeB])"
proof -
  have r: "Method (sampleRequest ''tx05'' idB pingMethod []) = pingMethod"
    "Request.NodeID (sampleRequest ''tx05'' idB pingMethod []) = idB"
    "Request.ID (sampleRequest ''tx05'' idB pingMethod []) = ''tx05''"
    by (simp_all add: sampleRequest_def)
  have o: "Request.NodeID (sampleRequest ''tx05'' idB pingMethod []) \<noteq> RawString (id' (node dhtA))"
    using sample_ids by (simp add: r dhtA_fields RawString_def)
  have l: "4 \<le> length (Request.ID (sampleRequest ''tx05'' idB pingMethod []))"
    by (simp add: r)
  from ping_reply_and_update [OF r(1) o l, of sampleConstants 0 addrB] o l
  show ?thesis
    by (auto simp: r dhtA_fields senders RawString_def sampleConstants_def)
qed

subsection \<open>findNode\<close>

lemma FindClosest_closest:
  assumes "x \<in> set (FindClosest rt t n)" and "y \<in> set (contacts rt)"
    and "y \<notin> set (FindClosest rt t n)"
  shows "distance t (id' x) \<le> distance t (id' y)"
proof -
  let ?f = "\<lambda>c. distance t (id' c)"
  let ?s = "sort_key ?f (contacts rt)"
  have "sorted (map ?f (take n ?s @ drop n ?s))" by simp
  then have *: "\<forall>a \<in> set (take n ?s). \<forall>b \<in> set (drop n ?s). ?f a \<le> ?f b"
    unfolding map_append sorted_append by auto
  have "y \<in> set (take n ?s @ drop n ?s)" using assms(2) by simp
  with assms(3) have "y \<in> set (drop n ?s)"
    unfolding set_append by (simp add: FindClosest_def)
  with * assms(1) show ?thesis by (simp add: FindClosest_def)
qed

text \<open>
  Claim C7 as stated fails for a request that claims the local id as its sender: the node
  holds the contact P, the \<open>findNode\<close> request carries an argument of 48 bytes, and
  \<open>handleRequest\<close> returns at its first test with no reply.
\<close>

theorem findNode_self_request_counterexample:
  "Method (sampleRequest ''tx08'' idA findNodeMethod [keyK]) = findNodeMethod
   \<and> 1 \<le> length (Args (sampleRequest ''tx08'' idA findNodeMethod [keyK]))
   \<and> length (Args (sampleRequest ''tx08'' idA findNodeMethod [keyK]) ! 0) = nodeIDLength
   \<and> contacts (routingTable dhtStored) = [nodeP]
   \<and> handleRequest sampleConstants 9 dhtStored addrB (sampleRequest ''tx08'' idA findNodeMethod [keyK])
       = Returns (dhtStored, False)
   \<and> conn dhtStored = [(addrP, storeReply)]"
  using handleRequest_self [of "sampleRequest ''tx08'' idA findNodeMethod [keyK]" dhtStored
      sampleConstants 9 addrB] sample_ids
  by (simp add: sampleRequest_def dhtStored_fields dhtA_fields RawString_def nodeIDLength_def
      contacts_def buckets_def)

text \<open>
  Claim C7, amended: a \<open>findNode\<close> request with no argument, or with a first argument
  that is not 48 bytes long, gets no reply and leaves the node as it was. A \<open>findNode\<close>
  request with a first argument of 48 bytes, a transaction id of at least 4 bytes and a
  sender id that differs from the local id is answered with the contacts of
  \<open>FindClosest\<close>: at most 20 contacts of the routing table, in ascending order of their
  distance to the requested id, none of them farther from it than a contact left out.
\<close>

theorem findNode_reply:
  assumes "Method request = findNodeMethod"
  shows "(length (Args request) < 1 \<or> length (Args request ! 0) \<noteq> nodeIDLength
            \<longrightarrow> handleRequest K now dht addr request = Returns (dht, False))
     \<and> (1 \<le> length (Args request) \<and> length (Args request ! 0) = nodeIDLength
         \<and> Request.NodeID request \<noteq> RawString (id' (node dht)) \<and> 4 \<le> length (Request.ID request)
        \<longrightarrow> (\<exists>cs. handleRequest K now dht addr request =
                    Returns (dht\<lparr>conn := conn dht @ [(addr, MsgResponse
                                    \<lparr>Response.ID = Request.ID request,
                                     Response.NodeID = RawString (id' (node dht)),
                                     Data = '''', FindNodeData = cs\<rparr>)],
                                 routingTable := Update (routingTable dht)
                                                   (senderNode (Request.NodeID request) addr)\<rparr>, True)
                \<and> cs = FindClosest (routingTable dht) (newBitmapFromString (Args request ! 0)) bucketSize
                \<and> length cs \<le> 20
                \<and> set cs \<subseteq> set (contacts (routingTable dht))
                \<and> sorted (map (\<lambda>c. distance (Args request ! 0) (id' c)) cs)
                \<and> (\<forall>x y. x \<in> set cs \<and> y \<in> set (contacts (routingTable dht)) \<and> y \<notin> set cs
                      \<longrightarrow> distance (Args request ! 0) (id' x) \<le> distance (Args request ! 0) (id' y))))"
proof (intro conjI impI)
  assume "length (Args request) < 1 \<or> length (Args request ! 0) \<noteq> nodeIDLength"
  with assms show "handleRequest K now dht addr request = Returns (dht, False)"
    by (simp add: handleRequest_find_rejected)
next
  let ?t = "newBitmapFromString (Args request ! 0)"
  let ?cs = "FindClosest (routingTable dht) ?t bucketSize"
  assume a: "1 \<le> length (Args request) \<and> length (Args request ! 0) = nodeIDLength
         \<and> Request.NodeID request \<noteq> RawString (id' (node dht)) \<and> 4 \<le> length (Request.ID request)"
  with assms have "handleRequest K now dht addr request =
      Returns (dht\<lparr>conn := conn dht @ [(addr, MsgResponse (closestResponse dht request))],
                    routingTable := Update (routingTable dht) (senderNode (Request.NodeID request) addr)\<rparr>, True)"
    by (simp add: handleRequest_find)
  moreover have "length ?cs \<le> 20"
    using length_FindClosest [of "routingTable dht" ?t bucketSize] by (simp add: bucketSize_def)
  moreover have t: "?t = Args request ! 0" by (simp add: newBitmapFromString_def)
  moreover have "\<forall>x y. x \<in> set ?cs \<and> y \<in> set (contacts (routingTable dht)) \<and> y \<notin> set ?cs
                      \<longrightarrow> distance ?t (id' x) \<le> distance ?t (id' y)"
    using FindClosest_closest by blast
  ultimately show "\<exists>cs. handleRequest K now dht addr request =
                    Returns (dht\<lparr>conn := conn dht @ [(addr, MsgResponse
                                    \<lparr>Response.ID = Request.ID request,
                                     Response.NodeID = RawString (id' (node dht)),
                                     Data = '''', FindNodeData = cs\<rparr>)],
                                 routingTable := Update (routingTable dht)
                                                   (senderNode (Request.NodeID request) addr)\<rparr>, True)
                \<and> cs = FindClosest (routingTable dht) (newBitmapFromString (Args request ! 0)) bucketSize
                \<and> length cs \<le> 20
                \<and> set cs \<subseteq> set (contacts (routingTable dht))
                \<and> sorted (map (\<lambda>c. distance (Args request ! 0) (id' c)) cs)
                \<and> (\<forall>x y. x \<in> set cs \<and> y \<in> set (contacts (routingTable dht)) \<and> y \<notin> set cs
                      \<longrightarrow> distance (Args request ! 0) (id' x) \<le> distance (Args request ! 0) (id' y))"
    using set_FindClosest [of "routingTable dht" ?t bucketSize]
      sorted_FindClosest [of ?t "routingTable dht" bucketSize]
    by (simp add: closestResponse_def Let_def)
qed

theorem findNode_reply_witness:
  "Method (sampleRequest ''tx10'' idB findNodeMethod [''short'']) = findNodeMethod
   \<and> length (Args (sampleRequest ''tx10'' idB findNodeMethod [''short'']) ! 0) \<noteq> nodeIDLength
   \<and> handleRequest sampleConstants 9 dhtStored addrB (sampleRequest ''tx10'' idB findNodeMethod [''short''])
       = Returns (dhtStored, False)
   \<and> Method (sampleRequest ''tx11'' idB findNodeMethod [keyK]) = findNodeMethod
   \<and> 1 \<le> length (Args (sampleRequest ''tx11'' idB findNodeMethod [keyK]))
   \<and> length (Args (sampleRequest ''tx11'' idB findNodeMethod [keyK]) ! 0) = nodeIDLength
   \<and> Request.NodeID (sampleRequest ''tx11'' idB findNodeMethod [keyK]) \<noteq> RawString (id' (node dhtStored))
   \<and> 4 \<le> length (Request.ID (sampleRequest ''tx11'' idB findNodeMethod [keyK]))
   \<and> handleRequest sampleConstants 9 dhtStored addrB (sampleRequest ''tx11'' idB findNodeMethod [keyK])
       = Returns (dhtStored\<lparr>conn := [(addrP, storeReply),
                                      (addrB, MsgResponse \<lparr>Response.ID = ''tx11'', Response.NodeID = idA,
                                                           Data = '''', FindNodeData = [nodeP]\<rparr>)],
                            routingTable := \<lparr>rt_node = nodeA, far = [], near = [nodeB, nodeP]\<rparr>\<rparr>, True)"
proof -
  have m: "Method (sampleRequest i n findNodeMethod as) = findNodeMethod" for i n as
    by (simp add: sampleRequest_def)
  from findNode_reply [OF m, of "''tx10''" idB "[''short'']" sampleConstants 9 dhtStored addrB]
    findNode_reply [OF m, of "''tx11''" idB "[keyK]" sampleConstants 9 dhtStored addrB]
    sample_ids
  show ?thesis
    by (simp add: sampleRequest_def dhtStored_fields dhtA_fields RawString_def nodeIDLength_def
        newBitmapFromString_def FindClosest_stored senders Update_nodeB)
qed

subsection \<open>store\<close>

text \<open>
  Claim C8 as stated fails for a request that claims the local id as its sender: the
  \<open>store\<close> request carries a content key, and \<open>handleRequest\<close> returns at its first
  test; the store has no record for the key and no reply is sent.
\<close>

theorem store_self_request_counterexample:
  "Method (sampleStoreRequest ''tx12'' idA keyK idP) = storeMethod
   \<and> BlobHash (StoreArgs (sampleStoreRequest ''tx12'' idA keyK idP)) \<noteq> ''''
   \<and> handleRequest sampleConstants 7 dhtA addrB (sampleStoreRequest ''tx12'' idA keyK idP)
       = Returns (dhtA, False)
   \<and> Get (store dhtA) keyK = []
   \<and> conn dhtA = []"
  using handleRequest_self [of "sampleStoreRequest ''tx12'' idA keyK idP" dhtA sampleConstants 7 addrB]
  by (simp add: sampleStoreRequest_def dhtA_fields RawString_def keyK_def Get_def recordsOf_def
      newPeerStore_def)

text \<open>
  Claim C8, amended: a \<open>store\<close> request with an empty content key returns without a
  panic, inserts nothing and gets no reply. A \<open>store\<close> request with a content key, a
  transaction id of at least 4 bytes and a sender id that differs from the local id
  inserts the key with the publisher's id into the record store, where \<open>Get\<close> finds the
  publisher afterwards, and is answered with the success payload of \<open>store\<close>.
\<close>

theorem store_request:
  assumes "Method request = storeMethod"
  shows "(BlobHash (StoreArgs request) = ''''
            \<longrightarrow> handleRequest K now dht addr request = Returns (dht, False))
     \<and> (BlobHash (StoreArgs request) \<noteq> ''''
         \<and> Request.NodeID request \<noteq> RawString (id' (node dht)) \<and> 4 \<le> length (Request.ID request)
        \<longrightarrow> handleRequest K now dht addr request =
              Returns (dht\<lparr>store := Insert now (BlobHash (StoreArgs request))
                                      (storeArgs.NodeID (StoreArgs request)) (store dht),
                           conn := conn dht @ [(addr, MsgResponse
                                    \<lparr>Response.ID = Request.ID request,
                                     Response.NodeID = RawString (id' (node dht)),
                                     Data = storeSuccessResponse K, FindNodeData = []\<rparr>)],
                           routingTable := Update (routingTable dht)
                                             (senderNode (Request.NodeID request) addr)\<rparr>, True)
            \<and> storeArgs.NodeID (StoreArgs request)
                \<in> set (Get (Insert now (BlobHash (StoreArgs request))
                               (storeArgs.NodeID (StoreArgs request)) (store dht))
                          (BlobHash (StoreArgs request))))"
  using assms by (simp add: handleRequest_store_empty handleRequest_store Get_Insert_mem)

theorem store_request_witness:
  "Method (sampleStoreRequest ''tx04'' idB '''' idP) = storeMethod
   \<and> BlobHash (StoreArgs (sampleStoreRequest ''tx04'' idB '''' idP)) = ''''
   \<and> handleRequest sampleConstants 7 dhtA addrB (sampleStoreRequest ''tx04'' idB '''' idP)
       = Returns (dhtA, False)
   \<and> Method (sampleStoreRequest ''tx01'' idP keyK idP) = storeMethod
   \<and> BlobHash (StoreArgs (sampleStoreRequest ''tx01'' idP keyK idP)) \<noteq> ''''
   \<and> Request.NodeID (sampleStoreRequest ''tx01'' idP keyK idP) \<noteq> RawString (id' (node dhtA))
   \<and> 4 \<le> length (Request.ID (sampleStoreRequest ''tx01'' idP keyK idP))
   \<and> handleRequest sampleConstants 7 dhtA addrP (sampleStoreRequest ''tx01'' idP keyK idP)
       = Returns (dhtStored, True)
   \<and> Get (store dhtStored) keyK = [idP]
   \<and> conn dhtStored = [(addrP, storeReply)]"
proof -
  have m: "Method (sampleStoreRequest i n k p) = storeMethod" for i n k p
    by (simp add: sampleStoreRequest_def)
  have g: "Get (store dhtStored) keyK = [idP]"
    by (simp add: dhtStored_fields Get_def recordsOf_def)
  have u: "Update (newRoutingTable nodeA) nodeP = \<lparr>rt_node = nodeA, far = [], near = [nodeP]\<rparr>"
    using sample_ids by (simp add: Update_new_table nodeA_def nodeP_def)
  have i: "Insert 7 keyK idP newPeerStore = [keyK \<mapsto> [\<lparr>publisher = idP, storedAt = 7\<rparr>]]"
    by (simp add: Insert_def newPeerStore_def recordsOf_def)
  have k: "keyK \<noteq> []" by (simp add: keyK_def)
  from store_request [OF m, of "''tx04''" idB "''''" idP sampleConstants 7 dhtA addrB]
    store_request [OF m, of "''tx01''" idP keyK idP sampleConstants 7 dhtA addrP]
    sample_ids g k
  show ?thesis
    by (simp add: sampleStoreRequest_def dhtA_fields RawString_def senders u i dhtStored_fields)
      (simp add: dhtStored_def dhtA_def storeReply_def sampleConstants_def)
qed

end
